theory Spec2Isabelle
  imports Main "HOL-Library.Word"
begin

unbundle bit_operations_syntax

section \<open>Data model of I2CDriver.hpp\<close>

type_synonym u8 = "8 word"

datatype tI2CDriverError = I2C_OK | I2C_MISSING_ACK | I2C_LOST_ARBITRATION | I2C_BUS_ERROR

datatype tI2CDriverState =
  I2C_READY | I2C_MASTER_TRANSMIT | I2C_MASTER_RECEIVE | I2C_SLAVE_RECEIVE | I2C_SLAVE_TRANSMIT

datatype tI2CTypeOfCommunication = MASTER_SEND | MASTER_RECEIVED | SLAVE_SEND | SLAVE_RECEIVED

text \<open>
  The status codes of \<^verbatim>\<open>tI2CStatus\<close>, with the values the header gives them.
\<close>

abbreviation MASTER_START_TRANSMISSION_DONE_08 :: u8 where
  "MASTER_START_TRANSMISSION_DONE_08 \<equiv> 0x08"
abbreviation MASTER_REPEATED_START_TRANSMISSION_DONE_10 :: u8 where
  "MASTER_REPEATED_START_TRANSMISSION_DONE_10 \<equiv> 0x10"
abbreviation MASTER_ARBITRATION_LOST_38 :: u8 where
  "MASTER_ARBITRATION_LOST_38 \<equiv> 0x38"
abbreviation MS_STARTBIT_TRANSMITTED_AND_ACK_RECEIVED_18 :: u8 where
  "MS_STARTBIT_TRANSMITTED_AND_ACK_RECEIVED_18 \<equiv> 0x18"
abbreviation MS_STARTBIT_TRANSMITTED_AND_NO_ACK_RECEIVED_20 :: u8 where
  "MS_STARTBIT_TRANSMITTED_AND_NO_ACK_RECEIVED_20 \<equiv> 0x20"
abbreviation MS_DATA_TRANSMITTED_ACK_RECEIVED_28 :: u8 where
  "MS_DATA_TRANSMITTED_ACK_RECEIVED_28 \<equiv> 0x28"
abbreviation MS_DATA_TRANSMITTED_NO_ACK_RECEIVED_30 :: u8 where
  "MS_DATA_TRANSMITTED_NO_ACK_RECEIVED_30 \<equiv> 0x30"
abbreviation MR_STARTBIT_TRANSMITED_AND_ACK_RECEIVED_40 :: u8 where
  "MR_STARTBIT_TRANSMITED_AND_ACK_RECEIVED_40 \<equiv> 0x40"
abbreviation MR_STARTBIT_TRANSMITTED_AND_NO_ACK_RECEIVED_48 :: u8 where
  "MR_STARTBIT_TRANSMITTED_AND_NO_ACK_RECEIVED_48 \<equiv> 0x48"
abbreviation MR_DATA_RECEIVED_ACK_RETURN_50 :: u8 where
  "MR_DATA_RECEIVED_ACK_RETURN_50 \<equiv> 0x50"
abbreviation MR_DATA_RECEIVED_NO_ACK_RETURN_58 :: u8 where
  "MR_DATA_RECEIVED_NO_ACK_RETURN_58 \<equiv> 0x58"
abbreviation SR_START_TRANSMISSION_RECEIVED_60 :: u8 where
  "SR_START_TRANSMISSION_RECEIVED_60 \<equiv> 0x60"
abbreviation SR_ARBITRATION_LOST_ACK_RETURN_68 :: u8 where
  "SR_ARBITRATION_LOST_ACK_RETURN_68 \<equiv> 0x68"
abbreviation SR_GENERAL_ADDRESS_RECEIVED_ACK_RETURN_70 :: u8 where
  "SR_GENERAL_ADDRESS_RECEIVED_ACK_RETURN_70 \<equiv> 0x70"
abbreviation SR_ARBITRATION_LOST_ADDRESS_RECEIVED_ACK_RETURN_78 :: u8 where
  "SR_ARBITRATION_LOST_ADDRESS_RECEIVED_ACK_RETURN_78 \<equiv> 0x78"
abbreviation SR_DATA_RECEIVED_ACK_RETURN_80 :: u8 where
  "SR_DATA_RECEIVED_ACK_RETURN_80 \<equiv> 0x80"
abbreviation SR_DATA_RECEIVED_NO_ACK_RETURN_88 :: u8 where
  "SR_DATA_RECEIVED_NO_ACK_RETURN_88 \<equiv> 0x88"
abbreviation SR_GENERAL_DATA_RECEIVED_ACK_RETURN_90 :: u8 where
  "SR_GENERAL_DATA_RECEIVED_ACK_RETURN_90 \<equiv> 0x90"
abbreviation SR_GENERAL_DATA_RECEIVED_NO_ACK_RETURN_98 :: u8 where
  "SR_GENERAL_DATA_RECEIVED_NO_ACK_RETURN_98 \<equiv> 0x98"
abbreviation SR_STOP_RECEIVED :: u8 where
  "SR_STOP_RECEIVED \<equiv> 0xA0"
abbreviation ST_START_TRANSMISSION_RECEIVED_A8 :: u8 where
  "ST_START_TRANSMISSION_RECEIVED_A8 \<equiv> 0xA8"
abbreviation ST_ARBITRATION_LOST_ACK_RETURN_B0 :: u8 where
  "ST_ARBITRATION_LOST_ACK_RETURN_B0 \<equiv> 0xB0"
abbreviation ST_DATA_TRANSMIT_ACK_RECEIVED_B8 :: u8 where
  "ST_DATA_TRANSMIT_ACK_RECEIVED_B8 \<equiv> 0xB8"
abbreviation ST_DATA_TRANSMIT_NO_ACK_RECEIVED_C0 :: u8 where
  "ST_DATA_TRANSMIT_NO_ACK_RECEIVED_C0 \<equiv> 0xC0"
abbreviation ST_LAST_DATA_TRANSMIT_ACK_RECEIVED_C8 :: u8 where
  "ST_LAST_DATA_TRANSMIT_ACK_RECEIVED_C8 \<equiv> 0xC8"
abbreviation COMMON_NO_INFO_F8 :: u8 where
  "COMMON_NO_INFO_F8 \<equiv> 0xF8"
abbreviation COMMON_BUS_EEOR_00 :: u8 where
  "COMMON_BUS_EEOR_00 \<equiv> 0x00"

section \<open>The TWI registers and the statics shared by both build modes\<close>

text \<open>
  The control register is written as an OR of \<^verbatim>\<open>_BV(bit)\<close> terms. The bit numbers come
  from the device header, which is not part of the repository; nothing in the driver
  depends on them, only on which bits a written value holds. A control value is therefore
  the set of its bits.
\<close>

datatype twcr_bit = TWINT | TWEA | TWSTA | TWSTO | TWWC | TWEN | TWIE

text \<open>
  What the driver asks of the bus controller, in program order: every statement that
  assigns \<^verbatim>\<open>TWCR\<close> (with the value assigned) and every statement that assigns
  \<^verbatim>\<open>TWDR\<close>. The field \<open>bus\<close> below is this history; the driver never reads it.
\<close>

datatype bus_command = CtrlWrite "twcr_bit set" | DataWrite u8

record twi_driver =
  TWCR :: "twcr_bit set"
  TWDR :: u8
  TWSR :: u8
  bus :: "bus_command list"
  typeOfCommunication :: tI2CTypeOfCommunication
  driverState :: tI2CDriverState
  lastRequestStatus :: tI2CDriverError

definition write_TWCR :: "twcr_bit set \<Rightarrow> 'a twi_driver_scheme \<Rightarrow> 'a twi_driver_scheme" where
  "write_TWCR v s = s\<lparr>TWCR := v, bus := bus s @ [CtrlWrite v]\<rparr>"

definition write_TWDR :: "u8 \<Rightarrow> 'a twi_driver_scheme \<Rightarrow> 'a twi_driver_scheme" where
  "write_TWDR b s = s\<lparr>TWDR := b, bus := bus s @ [DataWrite b]\<rparr>"

definition ENABLE_I2C :: "'a twi_driver_scheme \<Rightarrow> 'a twi_driver_scheme" where
  "ENABLE_I2C = write_TWCR {TWEN, TWIE, TWEA}"

definition SEND_START_CONDITION :: "'a twi_driver_scheme \<Rightarrow> 'a twi_driver_scheme" where
  "SEND_START_CONDITION = write_TWCR {TWINT, TWEA, TWEN, TWIE, TWSTA}"

text \<open>
  The macro's statement is the chained assignment \<^verbatim>\<open>TWCR = TWCR = v\<close>. Both assignments
  store \<open>v\<close> (the value of the inner assignment is the value assigned), the register ends
  holding \<open>v\<close>, and the history records the statement as one command.
\<close>

definition SEND_STOP_CONDITION :: "'a twi_driver_scheme \<Rightarrow> 'a twi_driver_scheme" where
  "SEND_STOP_CONDITION = write_TWCR {TWEN, TWIE, TWEA, TWINT, TWSTO}"

definition REQUEST_SEND_WITH_ACK :: "'a twi_driver_scheme \<Rightarrow> 'a twi_driver_scheme" where
  "REQUEST_SEND_WITH_ACK = write_TWCR {TWEN, TWIE, TWINT, TWEA}"

definition REQUEST_SEND_WITHOUT_ACK :: "'a twi_driver_scheme \<Rightarrow> 'a twi_driver_scheme" where
  "REQUEST_SEND_WITHOUT_ACK = write_TWCR {TWEN, TWIE, TWINT}"

definition GET_COMMUNICATION_STATUS :: "'a twi_driver_scheme \<Rightarrow> u8" where
  "GET_COMMUNICATION_STATUS s = TWSR s AND 0xF8"

definition twi_releaseBus :: "'a twi_driver_scheme \<Rightarrow> 'a twi_driver_scheme" where
  "twi_releaseBus s = (write_TWCR {TWEN, TWIE, TWEA, TWINT} s)\<lparr>driverState := I2C_READY\<rparr>"

text \<open>A control value commands a stop condition when it holds \<^verbatim>\<open>TWSTO\<close>.\<close>

fun is_stop :: "bus_command \<Rightarrow> bool" where
  "is_stop (CtrlWrite v) = (TWSTO \<in> v)"
| "is_stop (DataWrite b) = False"

section \<open>Master build (\<^verbatim>\<open>I2C_MODE == MODE_MASTER\<close>)\<close>

text \<open>
  The caller's buffers are reached through the pointers \<^verbatim>\<open>i2cBuffer\<close> and
  \<^verbatim>\<open>masterReceivedBuffer\<close>: \<open>ram\<close> is the data memory, a pointer is an address in it,
  and \<^verbatim>\<open>p[i]\<close> is the cell at \<open>p + i\<close>.
\<close>

record master_driver = twi_driver +
  i2cBuffer :: nat
  i2cAddress :: u8
  dataPointer :: u8
  masterReceivedBuffer :: nat
  nbDataToSend :: u8
  ram :: "nat \<Rightarrow> u8"

text \<open>
  \<^verbatim>\<open>I2CDriver::initialisation\<close>, as far as it touches the modelled state: the driver
  state, the prescaler bits of the status register and the control register. The pull-up
  and bit-rate registers are left out.
\<close>

definition initialisation_master :: "master_driver \<Rightarrow> master_driver" where
  "initialisation_master s =
     ENABLE_I2C (s\<lparr>driverState := I2C_READY, TWSR := TWSR s AND 0xFC\<rparr>)"

text \<open>
  \<^verbatim>\<open>sendTo\<close> and \<^verbatim>\<open>readFrom\<close> return the value of their \<^verbatim>\<open>return\<close> statement together
  with the state they leave. \<^verbatim>\<open>address << 1\<close> is computed in \<^verbatim>\<open>int\<close> and stored into a
  \<^verbatim>\<open>uint8_t\<close>, which keeps the low eight bits.
\<close>

definition sendTo :: "u8 \<Rightarrow> nat \<Rightarrow> u8 \<Rightarrow> master_driver \<Rightarrow> u8 \<times> master_driver" where
  "sendTo address data len s =
     (if driverState s = I2C_READY then
        (0, SEND_START_CONDITION
              (s\<lparr>typeOfCommunication := MASTER_SEND,
                 driverState := I2C_MASTER_TRANSMIT,
                 dataPointer := 0,
                 nbDataToSend := len,
                 i2cAddress := push_bit 1 address,
                 i2cBuffer := data\<rparr>))
      else (0, s))"

definition readFrom :: "u8 \<Rightarrow> nat \<Rightarrow> u8 \<Rightarrow> master_driver \<Rightarrow> u8 \<times> master_driver" where
  "readFrom address data len s =
     (if driverState s = I2C_READY then
        (0, SEND_START_CONDITION
              (s\<lparr>typeOfCommunication := MASTER_RECEIVED,
                 driverState := I2C_MASTER_TRANSMIT,
                 dataPointer := 0,
                 nbDataToSend := len,
                 masterReceivedBuffer := data,
                 i2cAddress := push_bit 1 address + 1,
                 i2cBuffer := data\<rparr>))
      else (0, s))"

text \<open>
  The interrupt routine of the master build. The \<^verbatim>\<open>switch\<close> has no \<^verbatim>\<open>default\<close>: any other
  status leaves the state as it is. In \<^verbatim>\<open>dataPointer < nbDataToSend-1\<close> both operands are
  promoted to \<^verbatim>\<open>int\<close>, so the subtraction does not wrap: that comparison is on \<open>uint\<close>.
\<close>

definition ISR_master :: "master_driver \<Rightarrow> master_driver" where
  "ISR_master s =
     (let status = GET_COMMUNICATION_STATUS s in
      if status = MASTER_START_TRANSMISSION_DONE_08
         \<or> status = MASTER_REPEATED_START_TRANSMISSION_DONE_10 then
        REQUEST_SEND_WITH_ACK (write_TWDR (i2cAddress s) s)
      else if status = MS_STARTBIT_TRANSMITTED_AND_ACK_RECEIVED_18
         \<or> status = MS_DATA_TRANSMITTED_ACK_RECEIVED_28 then
        (if dataPointer s < nbDataToSend s then
           REQUEST_SEND_WITH_ACK
             (write_TWDR (ram s (i2cBuffer s + unat (dataPointer s)))
                (s\<lparr>dataPointer := dataPointer s + 1\<rparr>))
         else (SEND_STOP_CONDITION s)\<lparr>driverState := I2C_READY\<rparr>)
      else if status = MS_STARTBIT_TRANSMITTED_AND_NO_ACK_RECEIVED_20 then
        (SEND_STOP_CONDITION (s\<lparr>lastRequestStatus := I2C_MISSING_ACK\<rparr>))
          \<lparr>driverState := I2C_READY\<rparr>
      else if status = MS_DATA_TRANSMITTED_NO_ACK_RECEIVED_30 then
        (SEND_STOP_CONDITION (s\<lparr>lastRequestStatus := I2C_MISSING_ACK\<rparr>))
          \<lparr>driverState := I2C_READY\<rparr>
      else if status = MR_STARTBIT_TRANSMITED_AND_ACK_RECEIVED_40 then
        (if uint (dataPointer s) < uint (nbDataToSend s) - 1 then REQUEST_SEND_WITH_ACK s
         else REQUEST_SEND_WITHOUT_ACK s)
      else if status = MR_DATA_RECEIVED_ACK_RETURN_50 then
        (let s1 = s\<lparr>ram := (ram s)(masterReceivedBuffer s + unat (dataPointer s) := TWDR s),
                     dataPointer := dataPointer s + 1\<rparr>
         in if uint (dataPointer s1) < uint (nbDataToSend s1) - 1 then REQUEST_SEND_WITH_ACK s1
            else REQUEST_SEND_WITHOUT_ACK s1)
      else if status = MR_DATA_RECEIVED_NO_ACK_RETURN_58 then
        (SEND_STOP_CONDITION
           (s\<lparr>ram := (ram s)(masterReceivedBuffer s + unat (dataPointer s) := TWDR s),
              dataPointer := dataPointer s + 1\<rparr>))
          \<lparr>driverState := I2C_READY\<rparr>
      else if status = MR_STARTBIT_TRANSMITTED_AND_NO_ACK_RECEIVED_48 then
        (SEND_STOP_CONDITION s)\<lparr>driverState := I2C_READY\<rparr>
      else if status = MASTER_ARBITRATION_LOST_38 then
        twi_releaseBus (s\<lparr>lastRequestStatus := I2C_LOST_ARBITRATION\<rparr>)
      else if status = COMMON_NO_INFO_F8 then
        s\<lparr>driverState := I2C_READY\<rparr>
      else if status = COMMON_BUS_EEOR_00 then
        (SEND_STOP_CONDITION (s\<lparr>lastRequestStatus := I2C_BUS_ERROR\<rparr>))
          \<lparr>driverState := I2C_READY\<rparr>
      else s)"

text \<open>
  The controller raises the interrupt with a status in \<^verbatim>\<open>TWSR\<close> and, after a reception,
  the received byte in \<^verbatim>\<open>TWDR\<close>. An interrupt is the pair of these two register contents;
  the routine then runs on them.
\<close>

type_synonym irq = "u8 \<times> u8"

definition twi_interrupt :: "irq \<Rightarrow> master_driver \<Rightarrow> master_driver" where
  "twi_interrupt ev s = ISR_master (s\<lparr>TWSR := fst ev, TWDR := snd ev\<rparr>)"

fun interrupts :: "irq list \<Rightarrow> master_driver \<Rightarrow> master_driver" where
  "interrupts [] s = s"
| "interrupts (ev # evs) s = interrupts evs (twi_interrupt ev s)"

text \<open>
  The statics of a master build before \<^verbatim>\<open>initialisation\<close>: C zero-initialises them
  (the first enumerator of each enumeration, null pointers). The registers hold their
  reset values; \<open>mem\<close> is the content of the data memory.
\<close>

definition power_on_master :: "(nat \<Rightarrow> u8) \<Rightarrow> master_driver" where
  "power_on_master mem =
     \<lparr>TWCR = {}, TWDR = 0xFF, TWSR = 0xF8, bus = [],
      typeOfCommunication = MASTER_SEND, driverState = I2C_READY,
      lastRequestStatus = I2C_OK,
      i2cBuffer = 0, i2cAddress = 0, dataPointer = 0, masterReceivedBuffer = 0,
      nbDataToSend = 0, ram = mem\<rparr>"

text \<open>The number of stop conditions the driver has commanded so far.\<close>

definition stops :: "'a twi_driver_scheme \<Rightarrow> nat" where
  "stops s = length (filter is_stop (bus s))"

text \<open>
  The controller in master-receiver mode. After the address phase every further
  interrupt of a transaction reports a received byte, and the controller has answered
  that byte with the acknowledge bit the driver last wrote to \<^verbatim>\<open>TWCR\<close>: status 0x50
  (acknowledge returned) when \<^verbatim>\<open>TWEA\<close> was set, status 0x58 (not acknowledged) when it
  was clear. \<open>receive_bytes bs\<close> delivers the bytes the peer sends, in order, for as long
  as the transaction is in flight; once the driver is \<open>I2C_READY\<close> again the bus is
  released and no further byte reaches it.
\<close>

definition mr_data_status :: "master_driver \<Rightarrow> u8" where
  "mr_data_status s =
     (if TWEA \<in> TWCR s then MR_DATA_RECEIVED_ACK_RETURN_50
      else MR_DATA_RECEIVED_NO_ACK_RETURN_58)"

fun receive_bytes :: "u8 list \<Rightarrow> master_driver \<Rightarrow> master_driver" where
  "receive_bytes [] s = s"
| "receive_bytes (b # bs) s =
     (if driverState s = I2C_READY then s
      else receive_bytes bs (twi_interrupt (mr_data_status s, b) s))"

text \<open>
  A whole master-receive transaction with an acknowledging peer that sends \<open>bs\<close>: the
  call, the interrupts 0x08 (start sent) and 0x40 (address acknowledged), then the bytes.
\<close>

definition read_transaction ::
  "u8 \<Rightarrow> nat \<Rightarrow> u8 \<Rightarrow> u8 list \<Rightarrow> master_driver \<Rightarrow> master_driver" where
  "read_transaction address data len bs s =
     receive_bytes bs
       (interrupts [(MASTER_START_TRANSMISSION_DONE_08, TWDR s),
                    (MR_STARTBIT_TRANSMITED_AND_ACK_RECEIVED_40, TWDR s)]
          (snd (readFrom address data len s)))"

text \<open>The request the driver makes for the byte of index \<open>j\<close> of a read of \<open>m\<close> bytes.\<close>

definition byte_request :: "nat \<Rightarrow> nat \<Rightarrow> bus_command" where
  "byte_request m j =
     (if j + 1 < m then CtrlWrite {TWEN, TWIE, TWINT, TWEA} else CtrlWrite {TWEN, TWIE, TWINT})"

section \<open>Slave build (\<^verbatim>\<open>I2C_MODE == MODE_SLAVE\<close>)\<close>

text \<open>
  \<^verbatim>\<open>slaveBuffer\<close> is an array of \<^verbatim>\<open>I2C_BUFFER_SIZE\<close> bytes: a list of that length. The
  two handlers are functions of the firmware: they run on its state \<open>user\<close>, of a type
  \<open>'u\<close> the driver knows nothing about. The receive handler is given the buffer and the
  byte count; the transmit provider returns the bytes to send, indexed from the pointer
  it returns. (The static \<^verbatim>\<open>slaveReceiveCallBack\<close> is declared with a first parameter of
  type \<^verbatim>\<open>uint8_t\<close>; the registering function and the call pass the buffer, as here.) The
  model covers a driver whose handlers have been registered.

  The routine stores a received byte at \<^verbatim>\<open>slaveBuffer[slaveDataPointer++]\<close> and compares
  the index with nothing. A store at an index inside the array updates it. A store at
  an index past its end does not touch the array: it writes whatever lies behind it in
  memory (undefined behaviour in C). The field \<open>stray\<close> collects these stores, index and
  byte, in order.
\<close>

record 'u slave_driver = twi_driver +
  slaveDataPointer :: u8
  slaveBuffer :: "u8 list"
  stray :: "(nat \<times> u8) list"
  slaveTransmitBuffer :: "nat \<Rightarrow> u8"
  nbByteToTransmit :: u8
  slaveTransmitCallBack :: "'u \<Rightarrow> (nat \<Rightarrow> u8) \<times> 'u"
  slaveReceiveCallBack :: "u8 list \<Rightarrow> u8 \<Rightarrow> 'u \<Rightarrow> 'u"
  user :: 'u

definition slaveBuffer_store :: "nat \<Rightarrow> u8 \<Rightarrow> 'u slave_driver \<Rightarrow> 'u slave_driver" where
  "slaveBuffer_store i b s =
     (if i < length (slaveBuffer s) then s\<lparr>slaveBuffer := (slaveBuffer s)[i := b]\<rparr>
      else s\<lparr>stray := stray s @ [(i, b)]\<rparr>)"

definition setSlaveReceivedCallback ::
  "(u8 list \<Rightarrow> u8 \<Rightarrow> 'u \<Rightarrow> 'u) \<Rightarrow> 'u slave_driver \<Rightarrow> 'u slave_driver" where
  "setSlaveReceivedCallback callBackFunction s = s\<lparr>slaveReceiveCallBack := callBackFunction\<rparr>"

definition setSlaveTransmitCallback ::
  "('u \<Rightarrow> (nat \<Rightarrow> u8) \<times> 'u) \<Rightarrow> u8 \<Rightarrow> 'u slave_driver \<Rightarrow> 'u slave_driver" where
  "setSlaveTransmitCallback callBackFunction sz s =
     s\<lparr>slaveTransmitCallBack := callBackFunction, nbByteToTransmit := sz\<rparr>"

definition ISR_slave :: "'u slave_driver \<Rightarrow> 'u slave_driver" where
  "ISR_slave s =
     (let status = GET_COMMUNICATION_STATUS s in
      if status = SR_START_TRANSMISSION_RECEIVED_60
         \<or> status = SR_ARBITRATION_LOST_ACK_RETURN_68
         \<or> status = SR_GENERAL_ADDRESS_RECEIVED_ACK_RETURN_70
         \<or> status = SR_ARBITRATION_LOST_ADDRESS_RECEIVED_ACK_RETURN_78 then
        REQUEST_SEND_WITH_ACK
          (s\<lparr>typeOfCommunication := SLAVE_RECEIVED,
             driverState := I2C_SLAVE_RECEIVE,
             slaveDataPointer := 0\<rparr>)
      else if status = SR_DATA_RECEIVED_ACK_RETURN_80
         \<or> status = SR_GENERAL_DATA_RECEIVED_ACK_RETURN_90 then
        REQUEST_SEND_WITH_ACK
          ((slaveBuffer_store (unat (slaveDataPointer s)) (TWDR s) s)
             \<lparr>slaveDataPointer := slaveDataPointer s + 1\<rparr>)
      else if status = SR_DATA_RECEIVED_NO_ACK_RETURN_88
         \<or> status = SR_GENERAL_DATA_RECEIVED_NO_ACK_RETURN_98 then
        REQUEST_SEND_WITHOUT_ACK
          ((slaveBuffer_store (unat (slaveDataPointer s)) (TWDR s) s)
             \<lparr>slaveDataPointer := slaveDataPointer s + 1\<rparr>)
      else if status = SR_STOP_RECEIVED then
        (twi_releaseBus
           (ENABLE_I2C
              (s\<lparr>user := slaveReceiveCallBack s (slaveBuffer s) (slaveDataPointer s) (user s)\<rparr>)))
          \<lparr>driverState := I2C_READY\<rparr>
      else if status = ST_START_TRANSMISSION_RECEIVED_A8
         \<or> status = ST_ARBITRATION_LOST_ACK_RETURN_B0 then
        (let s1 = s\<lparr>typeOfCommunication := SLAVE_SEND,
                     driverState := I2C_SLAVE_TRANSMIT,
                     slaveTransmitBuffer := fst (slaveTransmitCallBack s (user s)),
                     user := snd (slaveTransmitCallBack s (user s)),
                     slaveDataPointer := 0\<rparr>;
             s2 = write_TWDR (slaveTransmitBuffer s1 (unat (slaveDataPointer s1)))
                    (s1\<lparr>slaveDataPointer := slaveDataPointer s1 + 1\<rparr>)
         in if slaveDataPointer s2 < nbByteToTransmit s2 then REQUEST_SEND_WITH_ACK s2
            else REQUEST_SEND_WITHOUT_ACK s2)
      else if status = ST_DATA_TRANSMIT_ACK_RECEIVED_B8 then
        (let s2 = write_TWDR (slaveTransmitBuffer s (unat (slaveDataPointer s)))
                    (s\<lparr>slaveDataPointer := slaveDataPointer s + 1\<rparr>)
         in if slaveDataPointer s2 < nbByteToTransmit s2 then REQUEST_SEND_WITH_ACK s2
            else REQUEST_SEND_WITHOUT_ACK s2)
      else if status = ST_DATA_TRANSMIT_NO_ACK_RECEIVED_C0
         \<or> status = ST_LAST_DATA_TRANSMIT_ACK_RECEIVED_C8 then
        (REQUEST_SEND_WITH_ACK s)\<lparr>driverState := I2C_READY\<rparr>
      else if status = COMMON_NO_INFO_F8 then
        s\<lparr>driverState := I2C_READY\<rparr>
      else if status = COMMON_BUS_EEOR_00 then
        (SEND_STOP_CONDITION (s\<lparr>lastRequestStatus := I2C_BUS_ERROR\<rparr>))
          \<lparr>driverState := I2C_READY\<rparr>
      else s)"

definition slave_interrupt :: "irq \<Rightarrow> 'u slave_driver \<Rightarrow> 'u slave_driver" where
  "slave_interrupt ev s = ISR_slave (s\<lparr>TWSR := fst ev, TWDR := snd ev\<rparr>)"

fun slave_interrupts :: "irq list \<Rightarrow> 'u slave_driver \<Rightarrow> 'u slave_driver" where
  "slave_interrupts [] s = s"
| "slave_interrupts (ev # evs) s = slave_interrupts evs (slave_interrupt ev s)"

text \<open>
  A slave-receive transaction as the controller reports it when the peer writes the
  bytes \<open>bs\<close> and then stops: own address received (0x60), one interrupt 0x80 per data
  byte (the driver always asks for the next byte with acknowledge), stop received (0xA0).
\<close>

definition slave_write :: "u8 list \<Rightarrow> irq list" where
  "slave_write bs =
     (SR_START_TRANSMISSION_RECEIVED_60, 0)
       # map (\<lambda>b. (SR_DATA_RECEIVED_ACK_RETURN_80, b)) bs
       @ [(SR_STOP_RECEIVED, 0)]"

text \<open>
  A slave build with a buffer of \<open>capacity\<close> bytes after power-on, with a firmware that
  registers as receive handler \<open>record_call\<close>, which notes the buffer it is given
  (the array's content) together with \<open>nbBytes\<close>, and a transmit provider that offers a
  constant zero buffer.
\<close>

definition record_call :: "u8 list \<Rightarrow> u8 \<Rightarrow> (u8 list \<times> u8) list \<Rightarrow> (u8 list \<times> u8) list" where
  "record_call pBuffer nbBytes calls = calls @ [(pBuffer, nbBytes)]"

definition power_on_slave :: "nat \<Rightarrow> (u8 list \<times> u8) list slave_driver" where
  "power_on_slave capacity =
     \<lparr>TWCR = {}, TWDR = 0xFF, TWSR = 0xF8, bus = [],
      typeOfCommunication = MASTER_SEND, driverState = I2C_READY,
      lastRequestStatus = I2C_OK,
      slaveDataPointer = 0, slaveBuffer = replicate capacity 0, stray = [],
      slaveTransmitBuffer = (\<lambda>_. 0), nbByteToTransmit = 0,
      slaveTransmitCallBack = (\<lambda>u. ((\<lambda>_. 0), u)),
      slaveReceiveCallBack = record_call, user = []\<rparr>"

section \<open>Single interrupts\<close>

lemmas macro_defs =
  write_TWCR_def write_TWDR_def ENABLE_I2C_def SEND_START_CONDITION_def
  SEND_STOP_CONDITION_def REQUEST_SEND_WITH_ACK_def REQUEST_SEND_WITHOUT_ACK_def
  GET_COMMUNICATION_STATUS_def twi_releaseBus_def

text \<open>
  C8. In a master-receive transaction, the address-not-acknowledged interrupt (0x48)
  commands one stop condition, returns the driver to \<open>I2C_READY\<close> and leaves
  \<open>lastRequestStatus\<close> as it was; the address-not-acknowledged interrupt of the send path
  (0x20) records \<open>I2C_MISSING_ACK\<close>.
\<close>

theorem mr_address_nack_records_no_error:
  "lastRequestStatus (twi_interrupt (MR_STARTBIT_TRANSMITTED_AND_NO_ACK_RECEIVED_48, d) s)
     = lastRequestStatus s
   \<and> driverState (twi_interrupt (MR_STARTBIT_TRANSMITTED_AND_NO_ACK_RECEIVED_48, d) s)
     = I2C_READY
   \<and> bus (twi_interrupt (MR_STARTBIT_TRANSMITTED_AND_NO_ACK_RECEIVED_48, d) s)
     = bus s @ [CtrlWrite {TWEN, TWIE, TWEA, TWINT, TWSTO}]
   \<and> lastRequestStatus (twi_interrupt (MS_STARTBIT_TRANSMITTED_AND_NO_ACK_RECEIVED_20, d) s)
     = I2C_MISSING_ACK"
  by (simp add: twi_interrupt_def ISR_master_def macro_defs)

section \<open>The facade calls\<close>

text \<open>
  C7 (as the code has it). \<^verbatim>\<open>sendTo\<close> and \<^verbatim>\<open>readFrom\<close> end in \<^verbatim>\<open>return 0\<close> on both
  paths: the returned value is 0 whether the call started a transaction or was dropped.
\<close>

theorem facade_returns_zero:
  "fst (sendTo a p n s) = 0 \<and> fst (readFrom a p n s) = 0"
  by (simp add: sendTo_def readFrom_def)

text \<open>
  C7 fails as stated: on the idle driver after power-on, \<^verbatim>\<open>sendTo\<close> and \<^verbatim>\<open>readFrom\<close> are
  accepted (the transaction is started) and still return 0, a falsy value.
\<close>

theorem accepted_call_returns_falsy:
  "driverState (power_on_master (\<lambda>_. 0)) = I2C_READY
   \<and> driverState (snd (sendTo 0x50 0 3 (power_on_master (\<lambda>_. 0)))) = I2C_MASTER_TRANSMIT
   \<and> fst (sendTo 0x50 0 3 (power_on_master (\<lambda>_. 0))) = 0
   \<and> driverState (snd (readFrom 0x50 0 3 (power_on_master (\<lambda>_. 0)))) = I2C_MASTER_TRANSMIT
   \<and> fst (readFrom 0x50 0 3 (power_on_master (\<lambda>_. 0))) = 0"
  by (simp add: sendTo_def readFrom_def power_on_master_def macro_defs)

lemma unat_shifted_address:
  fixes a :: u8
  assumes "a \<le> 127"
  shows "unat (push_bit 1 a) = 2 * unat a"
proof -
  from assms have "unat a \<le> 127"
    by (simp add: word_le_nat_alt)
  then have "2 * unat a < 2 ^ LENGTH(8)"
    by simp
  then have "unat (2 * a) = 2 * unat a"
    by (simp add: unat_mult_lem [THEN iffD1])
  then show ?thesis
    by (simp add: push_bit_eq_mult mult.commute)
qed

lemma unat_shifted_address_read:
  fixes a :: u8
  assumes "a \<le> 127"
  shows "unat (push_bit 1 a + 1) = 2 * unat a + 1"
proof -
  from assms have "unat a \<le> 127"
    by (simp add: word_le_nat_alt)
  then have "unat (push_bit 1 a) + unat (1 :: u8) < 2 ^ LENGTH(8)"
    using unat_shifted_address [OF assms] by simp
  then have "unat (push_bit 1 a + 1) = unat (push_bit 1 a) + unat (1 :: u8)"
    by (simp only: unat_add_lem [THEN iffD1])
  then show ?thesis
    using unat_shifted_address [OF assms] by simp
qed

text \<open>
  C9. A call of \<^verbatim>\<open>sendTo\<close> or \<^verbatim>\<open>readFrom\<close> on a driver that is not \<open>I2C_READY\<close> returns
  the state untouched (so no field of the context changes and nothing is commanded on
  the bus). On a \<open>I2C_READY\<close> driver, with a 7-bit address, the call stores twice the
  address (the address shifted left by one) with direction bit 0 for \<^verbatim>\<open>sendTo\<close> and 1 for
  \<^verbatim>\<open>readFrom\<close>, stores buffer and length, resets the cursor, commands exactly one start
  condition, and returns with the transaction pending (\<open>I2C_MASTER_TRANSMIT\<close>): no
  interrupt has run, \<open>ram\<close> and \<open>lastRequestStatus\<close> are as before.
\<close>

theorem facade_call_populates_or_drops:
  "(driverState s \<noteq> I2C_READY \<longrightarrow>
      snd (sendTo a p n s) = s \<and> snd (readFrom a p n s) = s)
   \<and> (driverState s = I2C_READY \<and> a \<le> 127 \<longrightarrow>
        typeOfCommunication (snd (sendTo a p n s)) = MASTER_SEND
      \<and> driverState (snd (sendTo a p n s)) = I2C_MASTER_TRANSMIT
      \<and> unat (i2cAddress (snd (sendTo a p n s))) = 2 * unat a
      \<and> \<not> bit (i2cAddress (snd (sendTo a p n s))) 0
      \<and> i2cBuffer (snd (sendTo a p n s)) = p
      \<and> dataPointer (snd (sendTo a p n s)) = 0
      \<and> nbDataToSend (snd (sendTo a p n s)) = n
      \<and> bus (snd (sendTo a p n s)) = bus s @ [CtrlWrite {TWINT, TWEA, TWEN, TWIE, TWSTA}]
      \<and> ram (snd (sendTo a p n s)) = ram s
      \<and> lastRequestStatus (snd (sendTo a p n s)) = lastRequestStatus s
      \<and> typeOfCommunication (snd (readFrom a p n s)) = MASTER_RECEIVED
      \<and> driverState (snd (readFrom a p n s)) = I2C_MASTER_TRANSMIT
      \<and> unat (i2cAddress (snd (readFrom a p n s))) = 2 * unat a + 1
      \<and> bit (i2cAddress (snd (readFrom a p n s))) 0
      \<and> i2cBuffer (snd (readFrom a p n s)) = p
      \<and> masterReceivedBuffer (snd (readFrom a p n s)) = p
      \<and> dataPointer (snd (readFrom a p n s)) = 0
      \<and> nbDataToSend (snd (readFrom a p n s)) = n
      \<and> bus (snd (readFrom a p n s)) = bus s @ [CtrlWrite {TWINT, TWEA, TWEN, TWIE, TWSTA}]
      \<and> ram (snd (readFrom a p n s)) = ram s
      \<and> lastRequestStatus (snd (readFrom a p n s)) = lastRequestStatus s)"
  using unat_shifted_address [of a] unat_shifted_address_read [of a]
  by (simp add: sendTo_def readFrom_def macro_defs bit_0)

theorem facade_call_populates_or_drops_witness:
  "snd (sendTo 0x51 64 3 (snd (readFrom 0x50 32 2 (power_on_master (\<lambda>_. 0)))))
     = snd (readFrom 0x50 32 2 (power_on_master (\<lambda>_. 0)))
   \<and> unat (i2cAddress (snd (sendTo 0x50 32 2 (power_on_master (\<lambda>_. 0))))) = 0xA0
   \<and> unat (i2cAddress (snd (readFrom 0x50 32 2 (power_on_master (\<lambda>_. 0))))) = 0xA1
   \<and> bus (snd (readFrom 0x50 32 2 (power_on_master (\<lambda>_. 0))))
       = [CtrlWrite {TWINT, TWEA, TWEN, TWIE, TWSTA}]"
proof -
  have busy: "driverState (snd (readFrom 0x50 32 2 (power_on_master (\<lambda>_. 0)))) \<noteq> I2C_READY"
    by (simp add: readFrom_def power_on_master_def macro_defs)
  have idle: "driverState (power_on_master (\<lambda>_. 0)) = I2C_READY \<and> (0x50 :: u8) \<le> 127"
    by (simp add: power_on_master_def)
  have empty: "bus (power_on_master (\<lambda>_. 0)) = []"
    by (simp add: power_on_master_def)
  show ?thesis
    using busy idle empty
      facade_call_populates_or_drops
        [of "snd (readFrom 0x50 32 2 (power_on_master (\<lambda>_. 0)))" "0x51" 64 3]
      facade_call_populates_or_drops [of "power_on_master (\<lambda>_. 0)" "0x50" 32 2]
    by simp
qed

section \<open>Whole transactions: errors\<close>

lemma ready_is_kept:
  "driverState s = I2C_READY \<Longrightarrow> driverState (twi_interrupt ev s) = I2C_READY"
  by (simp add: twi_interrupt_def ISR_master_def macro_defs Let_def)

lemma ready_is_kept_interrupts:
  "driverState s = I2C_READY \<Longrightarrow> driverState (interrupts evs s) = I2C_READY"
  by (induction evs arbitrary: s) (simp_all add: ready_is_kept)

lemma pending_step_no_stop:
  "driverState (twi_interrupt ev s) \<noteq> I2C_READY \<Longrightarrow> stops (twi_interrupt ev s) = stops s"
  by (auto simp add: twi_interrupt_def ISR_master_def macro_defs Let_def stops_def
      split: if_splits)

lemma pending_no_stop:
  "driverState (interrupts evs s) \<noteq> I2C_READY \<Longrightarrow> stops (interrupts evs s) = stops s"
proof (induction evs arbitrary: s)
  case Nil
  then show ?case by simp
next
  case (Cons ev evs)
  from Cons.prems have pending: "driverState (interrupts evs (twi_interrupt ev s)) \<noteq> I2C_READY"
    by simp
  then have "driverState (twi_interrupt ev s) \<noteq> I2C_READY"
    using ready_is_kept_interrupts by blast
  then have "stops (twi_interrupt ev s) = stops s"
    by (rule pending_step_no_stop)
  with Cons.IH [OF pending] show ?case by simp
qed

lemma facade_no_stop:
  "stops (snd (sendTo a p n s)) = stops s" "stops (snd (readFrom a p n s)) = stops s"
  by (simp_all add: sendTo_def readFrom_def macro_defs stops_def)

lemma started_pending_no_stop:
  assumes "s1 = snd (sendTo a p n s0) \<or> s1 = snd (readFrom a p n s0)"
    and "driverState (interrupts evs s1) \<noteq> I2C_READY"
  shows "stops (interrupts evs s1) = stops s0"
  using assms pending_no_stop [of evs s1] facade_no_stop [of a p n s0] by auto

text \<open>
  C5. Take a master transaction started by \<^verbatim>\<open>sendTo\<close> or \<^verbatim>\<open>readFrom\<close> on an idle driver
  and still in flight after any interrupts \<open>evs\<close>. When the next interrupt is a missing
  acknowledge of the send path (0x20 after the address, 0x30 after a data byte) or a bus
  error (0x00), the driver records \<open>I2C_MISSING_ACK\<close>, respectively \<open>I2C_BUS_ERROR\<close>, is
  \<open>I2C_READY\<close> afterwards, and has commanded exactly one stop condition since the call.
\<close>

theorem error_event_stops_once:
  assumes "driverState s0 = I2C_READY"
    and "s1 = snd (sendTo a p n s0) \<or> s1 = snd (readFrom a p n s0)"
    and "driverState (interrupts evs s1) \<noteq> I2C_READY"
    and "st = MS_STARTBIT_TRANSMITTED_AND_NO_ACK_RECEIVED_20
         \<or> st = MS_DATA_TRANSMITTED_NO_ACK_RECEIVED_30 \<or> st = COMMON_BUS_EEOR_00"
  shows "driverState (twi_interrupt (st, d) (interrupts evs s1)) = I2C_READY
    \<and> lastRequestStatus (twi_interrupt (st, d) (interrupts evs s1))
        = (if st = COMMON_BUS_EEOR_00 then I2C_BUS_ERROR else I2C_MISSING_ACK)
    \<and> stops (twi_interrupt (st, d) (interrupts evs s1)) = stops s0 + 1"
proof -
  have before: "stops (interrupts evs s1) = stops s0"
    using assms(2,3) by (rule started_pending_no_stop)
  have step: "driverState (twi_interrupt (st, d) t) = I2C_READY
    \<and> lastRequestStatus (twi_interrupt (st, d) t)
        = (if st = COMMON_BUS_EEOR_00 then I2C_BUS_ERROR else I2C_MISSING_ACK)
    \<and> stops (twi_interrupt (st, d) t) = stops t + 1" for t
    using assms(4) by (auto simp add: twi_interrupt_def ISR_master_def macro_defs stops_def)
  from step [of "interrupts evs s1"] before show ?thesis
    by simp
qed

theorem error_event_stops_once_witness:
  "driverState (twi_interrupt (0x30, 0xFF)
      (interrupts [(0x08, 0xFF), (0x18, 0xFF)]
         (snd (sendTo 0x50 0 3 (power_on_master (\<lambda>_. 0)))))) = I2C_READY
   \<and> lastRequestStatus (twi_interrupt (0x30, 0xFF)
      (interrupts [(0x08, 0xFF), (0x18, 0xFF)]
         (snd (sendTo 0x50 0 3 (power_on_master (\<lambda>_. 0)))))) = I2C_MISSING_ACK
   \<and> stops (twi_interrupt (0x30, 0xFF)
      (interrupts [(0x08, 0xFF), (0x18, 0xFF)]
         (snd (sendTo 0x50 0 3 (power_on_master (\<lambda>_. 0)))))) = 1"
proof -
  have h1: "driverState (power_on_master (\<lambda>_. 0)) = I2C_READY"
    by (simp add: power_on_master_def)
  have h2: "snd (sendTo 0x50 0 3 (power_on_master (\<lambda>_. 0)))
              = snd (sendTo 0x50 0 3 (power_on_master (\<lambda>_. 0)))
            \<or> snd (sendTo 0x50 0 3 (power_on_master (\<lambda>_. 0)))
              = snd (readFrom 0x50 0 3 (power_on_master (\<lambda>_. 0)))"
    by simp
  have h3: "driverState (interrupts [(0x08, 0xFF), (0x18, 0xFF)]
              (snd (sendTo 0x50 0 3 (power_on_master (\<lambda>_. 0))))) \<noteq> I2C_READY"
    by (simp add: sendTo_def power_on_master_def twi_interrupt_def ISR_master_def macro_defs)
  have h4: "(0x30 :: u8) = MS_STARTBIT_TRANSMITTED_AND_NO_ACK_RECEIVED_20
            \<or> (0x30 :: u8) = MS_DATA_TRANSMITTED_NO_ACK_RECEIVED_30
            \<or> (0x30 :: u8) = COMMON_BUS_EEOR_00"
    by simp
  have z: "stops (power_on_master (\<lambda>_. 0)) = 0"
    by (simp add: stops_def power_on_master_def)
  from error_event_stops_once [OF h1 h2 h3 h4, of "0xFF"] z show ?thesis
    by simp
qed

text \<open>
  C6. Take a master transaction started by \<^verbatim>\<open>sendTo\<close> or \<^verbatim>\<open>readFrom\<close> on an idle driver
  and still in flight after any interrupts \<open>evs\<close>. When the next interrupt reports lost
  arbitration (0x38), the driver records \<open>I2C_LOST_ARBITRATION\<close>, writes the control value
  of \<^verbatim>\<open>twi_releaseBus\<close> (which holds no \<^verbatim>\<open>TWSTO\<close>), is \<open>I2C_READY\<close> afterwards, and has
  commanded no stop condition since the call.
\<close>

theorem arbitration_loss_releases_without_stop:
  assumes "driverState s0 = I2C_READY"
    and "s1 = snd (sendTo a p n s0) \<or> s1 = snd (readFrom a p n s0)"
    and "driverState (interrupts evs s1) \<noteq> I2C_READY"
  shows "driverState (twi_interrupt (MASTER_ARBITRATION_LOST_38, d) (interrupts evs s1))
           = I2C_READY
    \<and> lastRequestStatus (twi_interrupt (MASTER_ARBITRATION_LOST_38, d) (interrupts evs s1))
           = I2C_LOST_ARBITRATION
    \<and> bus (twi_interrupt (MASTER_ARBITRATION_LOST_38, d) (interrupts evs s1))
           = bus (interrupts evs s1) @ [CtrlWrite {TWEN, TWIE, TWEA, TWINT}]
    \<and> stops (twi_interrupt (MASTER_ARBITRATION_LOST_38, d) (interrupts evs s1)) = stops s0"
proof -
  have before: "stops (interrupts evs s1) = stops s0"
    using assms(2,3) by (rule started_pending_no_stop)
  have step: "driverState (twi_interrupt (MASTER_ARBITRATION_LOST_38, d) t) = I2C_READY
    \<and> lastRequestStatus (twi_interrupt (MASTER_ARBITRATION_LOST_38, d) t)
         = I2C_LOST_ARBITRATION
    \<and> bus (twi_interrupt (MASTER_ARBITRATION_LOST_38, d) t)
         = bus t @ [CtrlWrite {TWEN, TWIE, TWEA, TWINT}]
    \<and> stops (twi_interrupt (MASTER_ARBITRATION_LOST_38, d) t) = stops t" for t
    by (simp add: twi_interrupt_def ISR_master_def macro_defs stops_def)
  from step [of "interrupts evs s1"] before show ?thesis
    by simp
qed

theorem arbitration_loss_releases_without_stop_witness:
  "driverState (twi_interrupt (0x38, 0xFF)
      (interrupts [(0x08, 0xFF)]
         (snd (readFrom 0x50 0 3 (power_on_master (\<lambda>_. 0)))))) = I2C_READY
   \<and> lastRequestStatus (twi_interrupt (0x38, 0xFF)
      (interrupts [(0x08, 0xFF)]
         (snd (readFrom 0x50 0 3 (power_on_master (\<lambda>_. 0)))))) = I2C_LOST_ARBITRATION
   \<and> stops (twi_interrupt (0x38, 0xFF)
      (interrupts [(0x08, 0xFF)]
         (snd (readFrom 0x50 0 3 (power_on_master (\<lambda>_. 0)))))) = 0"
proof -
  have h1: "driverState (power_on_master (\<lambda>_. 0)) = I2C_READY"
    by (simp add: power_on_master_def)
  have h2: "snd (readFrom 0x50 0 3 (power_on_master (\<lambda>_. 0)))
              = snd (sendTo 0x50 0 3 (power_on_master (\<lambda>_. 0)))
            \<or> snd (readFrom 0x50 0 3 (power_on_master (\<lambda>_. 0)))
              = snd (readFrom 0x50 0 3 (power_on_master (\<lambda>_. 0)))"
    by simp
  have h3: "driverState (interrupts [(0x08, 0xFF)]
              (snd (readFrom 0x50 0 3 (power_on_master (\<lambda>_. 0))))) \<noteq> I2C_READY"
    by (simp add: readFrom_def power_on_master_def twi_interrupt_def ISR_master_def macro_defs)
  have z: "stops (power_on_master (\<lambda>_. 0)) = 0"
    by (simp add: stops_def power_on_master_def)
  from arbitration_loss_releases_without_stop [OF h1 h2 h3, of "0xFF"] z show ?thesis
    by simp
qed

section \<open>The last error across transactions\<close>

lemma success_step_keeps_error:
  assumes "fst ev AND 0xF8 \<notin> {MS_STARTBIT_TRANSMITTED_AND_NO_ACK_RECEIVED_20,
             MS_DATA_TRANSMITTED_NO_ACK_RECEIVED_30, MASTER_ARBITRATION_LOST_38,
             COMMON_BUS_EEOR_00}"
  shows "lastRequestStatus (twi_interrupt ev s) = lastRequestStatus s"
  using assms
  by (simp add: twi_interrupt_def ISR_master_def macro_defs Let_def)

lemma success_steps_keep_error:
  assumes "\<forall>ev \<in> set evs. fst ev AND 0xF8 \<notin> {MS_STARTBIT_TRANSMITTED_AND_NO_ACK_RECEIVED_20,
             MS_DATA_TRANSMITTED_NO_ACK_RECEIVED_30, MASTER_ARBITRATION_LOST_38,
             COMMON_BUS_EEOR_00}"
  shows "lastRequestStatus (interrupts evs s) = lastRequestStatus s"
  using assms
proof (induction evs arbitrary: s)
  case Nil
  then show ?case by simp
next
  case (Cons ev evs)
  then have "lastRequestStatus (interrupts evs (twi_interrupt ev s))
               = lastRequestStatus (twi_interrupt ev s)"
    by simp
  also have "\<dots> = lastRequestStatus s"
    using Cons.prems by (intro success_step_keeps_error) simp
  finally show ?case by simp
qed

text \<open>
  C10. \<^verbatim>\<open>sendTo\<close> and \<^verbatim>\<open>readFrom\<close> do not write \<open>lastRequestStatus\<close>, and no interrupt
  other than a missing acknowledge of the send path (0x20, 0x30), lost arbitration (0x38)
  or a bus error (0x00) writes it. So a transaction whose interrupts are all of the other
  kinds ends with the value \<open>lastRequestStatus\<close> had before the call: an error recorded by
  an earlier transaction is still there after a fully successful one.
\<close>

theorem last_error_is_never_reset:
  assumes "\<forall>ev \<in> set evs. fst ev AND 0xF8 \<notin> {MS_STARTBIT_TRANSMITTED_AND_NO_ACK_RECEIVED_20,
             MS_DATA_TRANSMITTED_NO_ACK_RECEIVED_30, MASTER_ARBITRATION_LOST_38,
             COMMON_BUS_EEOR_00}"
  shows "lastRequestStatus (snd (sendTo a p n s)) = lastRequestStatus s
    \<and> lastRequestStatus (snd (readFrom a p n s)) = lastRequestStatus s
    \<and> lastRequestStatus (interrupts evs (snd (sendTo a p n s))) = lastRequestStatus s
    \<and> lastRequestStatus (interrupts evs (snd (readFrom a p n s))) = lastRequestStatus s"
proof -
  have call: "lastRequestStatus (snd (sendTo a p n s)) = lastRequestStatus s"
    "lastRequestStatus (snd (readFrom a p n s)) = lastRequestStatus s"
    by (simp_all add: sendTo_def readFrom_def macro_defs)
  with success_steps_keep_error [OF assms] show ?thesis
    by simp
qed

theorem last_error_is_never_reset_witness:
  "lastRequestStatus
     (interrupts [(0x08, 0xFF), (0x18, 0xFF), (0x28, 0xFF), (0x28, 0xFF)]
        (snd (sendTo 0x50 0 2
           (interrupts [(0x08, 0xFF), (0x20, 0xFF)]
              (snd (sendTo 0x50 0 1 (power_on_master (\<lambda>_. 0)))))))) = I2C_MISSING_ACK
   \<and> driverState
     (interrupts [(0x08, 0xFF), (0x18, 0xFF), (0x28, 0xFF), (0x28, 0xFF)]
        (snd (sendTo 0x50 0 2
           (interrupts [(0x08, 0xFF), (0x20, 0xFF)]
              (snd (sendTo 0x50 0 1 (power_on_master (\<lambda>_. 0)))))))) = I2C_READY"
proof -
  have failed: "lastRequestStatus
      (interrupts [(0x08, 0xFF), (0x20, 0xFF)]
         (snd (sendTo 0x50 0 1 (power_on_master (\<lambda>_. 0))))) = I2C_MISSING_ACK"
    by (simp add: sendTo_def power_on_master_def twi_interrupt_def ISR_master_def macro_defs)
  have quiet: "\<forall>ev \<in> set [(0x08, 0xFF), (0x18, 0xFF), (0x28, 0xFF), (0x28, 0xFF :: u8)].
      fst ev AND 0xF8 \<notin> {MS_STARTBIT_TRANSMITTED_AND_NO_ACK_RECEIVED_20,
        MS_DATA_TRANSMITTED_NO_ACK_RECEIVED_30, MASTER_ARBITRATION_LOST_38,
        COMMON_BUS_EEOR_00}"
    by simp
  have finished: "driverState
     (interrupts [(0x08, 0xFF), (0x18, 0xFF), (0x28, 0xFF), (0x28, 0xFF)]
        (snd (sendTo 0x50 0 2
           (interrupts [(0x08, 0xFF), (0x20, 0xFF)]
              (snd (sendTo 0x50 0 1 (power_on_master (\<lambda>_. 0)))))))) = I2C_READY"
    by (simp add: sendTo_def power_on_master_def twi_interrupt_def ISR_master_def macro_defs)
  from last_error_is_never_reset [OF quiet, of "0x50" 0 2
      "interrupts [(0x08, 0xFF), (0x20, 0xFF)]
         (snd (sendTo 0x50 0 1 (power_on_master (\<lambda>_. 0))))"]
    failed finished
  show ?thesis
    by simp
qed

section \<open>Whole transactions: master send\<close>

lemma unat_cursor_step:
  fixes x y :: u8
  assumes "x < y"
  shows "unat (x + 1) = Suc (unat x)"
proof -
  from assms have "unat x < unat y"
    by (simp add: word_less_nat_alt)
  moreover have "unat y < 2 ^ LENGTH(8)"
    by (rule unsigned_less)
  ultimately have "unat x + unat (1 :: u8) < 2 ^ LENGTH(8)"
    by simp
  then have "unat (x + 1) = unat x + unat (1 :: u8)"
    by (simp only: unat_add_lem [THEN iffD1])
  then show ?thesis
    by simp
qed

lemma interrupts_append: "interrupts (xs @ ys) s = interrupts ys (interrupts xs s)"
  by (induction xs arbitrary: s) simp_all

lemma start_step:
  assumes "fst ev = MASTER_START_TRANSMISSION_DONE_08
           \<or> fst ev = MASTER_REPEATED_START_TRANSMISSION_DONE_10"
  shows "twi_interrupt ev s =
     s\<lparr>TWCR := {TWEN, TWIE, TWINT, TWEA}, TWDR := i2cAddress s, TWSR := fst ev,
       bus := bus s @ [DataWrite (i2cAddress s), CtrlWrite {TWEN, TWIE, TWINT, TWEA}]\<rparr>"
  using assms
  by (auto simp add: twi_interrupt_def ISR_master_def macro_defs)

lemma send_ack_step:
  assumes "fst ev = MS_STARTBIT_TRANSMITTED_AND_ACK_RECEIVED_18
           \<or> fst ev = MS_DATA_TRANSMITTED_ACK_RECEIVED_28"
    and "dataPointer s < nbDataToSend s"
  shows "twi_interrupt ev s =
     s\<lparr>TWCR := {TWEN, TWIE, TWINT, TWEA},
       TWDR := ram s (i2cBuffer s + unat (dataPointer s)),
       TWSR := fst ev,
       bus := bus s @ [DataWrite (ram s (i2cBuffer s + unat (dataPointer s))),
                       CtrlWrite {TWEN, TWIE, TWINT, TWEA}],
       dataPointer := dataPointer s + 1\<rparr>"
  using assms
  by (auto simp add: twi_interrupt_def ISR_master_def macro_defs)

lemma send_finish_step:
  assumes "fst ev = MS_STARTBIT_TRANSMITTED_AND_ACK_RECEIVED_18
           \<or> fst ev = MS_DATA_TRANSMITTED_ACK_RECEIVED_28"
    and "\<not> dataPointer s < nbDataToSend s"
  shows "twi_interrupt ev s =
     s\<lparr>TWCR := {TWEN, TWIE, TWEA, TWINT, TWSTO}, TWDR := snd ev, TWSR := fst ev,
       bus := bus s @ [CtrlWrite {TWEN, TWIE, TWEA, TWINT, TWSTO}],
       driverState := I2C_READY\<rparr>"
  using assms
  by (auto simp add: twi_interrupt_def ISR_master_def macro_defs)

text \<open>
  While bytes remain, every acknowledge interrupt of the send path writes the next byte
  of the buffer and advances the cursor by one.
\<close>

lemma send_loop:
  assumes "\<forall>ev \<in> set evs. fst ev = MS_STARTBIT_TRANSMITTED_AND_ACK_RECEIVED_18
             \<or> fst ev = MS_DATA_TRANSMITTED_ACK_RECEIVED_28"
    and "unat (dataPointer s) + length evs \<le> unat (nbDataToSend s)"
  shows "bus (interrupts evs s)
      = bus s @ concat (map (\<lambda>j. [DataWrite (ram s (i2cBuffer s + j)),
                                    CtrlWrite {TWEN, TWIE, TWINT, TWEA}])
                          [unat (dataPointer s) ..< unat (dataPointer s) + length evs])
    \<and> unat (dataPointer (interrupts evs s)) = unat (dataPointer s) + length evs
    \<and> nbDataToSend (interrupts evs s) = nbDataToSend s
    \<and> i2cBuffer (interrupts evs s) = i2cBuffer s
    \<and> ram (interrupts evs s) = ram s
    \<and> driverState (interrupts evs s) = driverState s
    \<and> lastRequestStatus (interrupts evs s) = lastRequestStatus s"
  using assms
proof (induction evs arbitrary: s)
  case Nil
  then show ?case by simp
next
  case (Cons ev evs)
  from Cons.prems have lt: "dataPointer s < nbDataToSend s"
    by (simp add: word_less_nat_alt)
  have st: "fst ev = MS_STARTBIT_TRANSMITTED_AND_ACK_RECEIVED_18
            \<or> fst ev = MS_DATA_TRANSMITTED_ACK_RECEIVED_28"
    using Cons.prems by simp
  note step = send_ack_step [OF st lt]
  have dp: "unat (dataPointer (twi_interrupt ev s)) = Suc (unat (dataPointer s))"
    by (simp add: step unat_cursor_step [OF lt])
  have pre: "unat (dataPointer (twi_interrupt ev s)) + length evs
               \<le> unat (nbDataToSend (twi_interrupt ev s))"
    using Cons.prems dp by (simp add: step)
  have rest: "\<forall>ev \<in> set evs. fst ev = MS_STARTBIT_TRANSMITTED_AND_ACK_RECEIVED_18
                \<or> fst ev = MS_DATA_TRANSMITTED_ACK_RECEIVED_28"
    using Cons.prems by simp
  note ih = Cons.IH [OF rest pre]
  show ?case
    using ih dp by (simp add: step upt_conv_Cons del: upt_Suc)
qed

lemma data_phase_has_no_stop:
  "filter is_stop (concat (map (\<lambda>j. [DataWrite (f j), CtrlWrite {TWEN, TWIE, TWINT, TWEA}]) js))
     = []"
  by (induction js) simp_all

text \<open>
  C3. A master-send transaction of \<open>n\<close> bytes with a peer that acknowledges everything
  sees the interrupts 0x08 (start sent), 0x18 (address acknowledged) and \<open>n\<close> times 0x28
  (data byte acknowledged). From an idle driver, the commands on the bus are then: the
  start condition, the address byte, and after it exactly the \<open>n\<close> data-register writes
  \<^verbatim>\<open>buffer[0]\<close>, ..., \<^verbatim>\<open>buffer[n-1]\<close> in this order (each followed by the request to
  continue), then one stop condition, the only one of the transaction. The driver ends
  \<open>I2C_READY\<close> with the cursor at \<open>n\<close>. (The buffer's \<open>n\<close> bytes are the memory cells
  \<open>p\<close>, ..., \<open>p + n - 1\<close>; a caller's buffer of at least \<open>n\<close> bytes holds them.)
\<close>

theorem master_send_writes_length_bytes_then_stops:
  assumes "driverState s0 = I2C_READY"
    and "map fst evs = MASTER_START_TRANSMISSION_DONE_08
           # MS_STARTBIT_TRANSMITTED_AND_ACK_RECEIVED_18
           # replicate (unat n) MS_DATA_TRANSMITTED_ACK_RECEIVED_28"
  shows "bus (interrupts evs (snd (sendTo a p n s0)))
      = bus s0
        @ [CtrlWrite {TWINT, TWEA, TWEN, TWIE, TWSTA},
           DataWrite (push_bit 1 a), CtrlWrite {TWEN, TWIE, TWINT, TWEA}]
        @ concat (map (\<lambda>j. [DataWrite (ram s0 (p + j)), CtrlWrite {TWEN, TWIE, TWINT, TWEA}])
                    [0 ..< unat n])
        @ [CtrlWrite {TWEN, TWIE, TWEA, TWINT, TWSTO}]
    \<and> stops (interrupts evs (snd (sendTo a p n s0))) = stops s0 + 1
    \<and> driverState (interrupts evs (snd (sendTo a p n s0))) = I2C_READY
    \<and> dataPointer (interrupts evs (snd (sendTo a p n s0))) = n
    \<and> lastRequestStatus (interrupts evs (snd (sendTo a p n s0))) = lastRequestStatus s0"
proof -
  from assms(2) obtain e0 rest where evs: "evs = e0 # rest"
    and e0: "fst e0 = MASTER_START_TRANSMISSION_DONE_08"
    and rest: "map fst rest = MS_STARTBIT_TRANSMITTED_AND_ACK_RECEIVED_18
                 # replicate (unat n) MS_DATA_TRANSMITTED_ACK_RECEIVED_28"
    by (cases evs) auto
  from rest have len: "length rest = Suc (unat n)"
    by (metis length_Cons length_map length_replicate)
  then have ne: "rest \<noteq> []"
    by auto
  have "set (map fst rest) \<subseteq> {MS_STARTBIT_TRANSMITTED_AND_ACK_RECEIVED_18,
          MS_DATA_TRANSMITTED_ACK_RECEIVED_28}"
    unfolding rest by auto
  then have acks: "\<forall>ev \<in> set rest. fst ev = MS_STARTBIT_TRANSMITTED_AND_ACK_RECEIVED_18
      \<or> fst ev = MS_DATA_TRANSMITTED_ACK_RECEIVED_28"
    by auto
  define s1 where "s1 = snd (sendTo a p n s0)"
  define s2 where "s2 = twi_interrupt e0 s1"
  define s3 where "s3 = interrupts (butlast rest) s2"
  have s1: "bus s1 = bus s0 @ [CtrlWrite {TWINT, TWEA, TWEN, TWIE, TWSTA}]"
    "dataPointer s1 = 0" "nbDataToSend s1 = n" "i2cBuffer s1 = p" "ram s1 = ram s0"
    "i2cAddress s1 = push_bit 1 a" "driverState s1 = I2C_MASTER_TRANSMIT"
    "lastRequestStatus s1 = lastRequestStatus s0"
    using assms(1) by (simp_all add: s1_def sendTo_def macro_defs)
  have s2: "bus s2 = bus s1 @ [DataWrite (i2cAddress s1), CtrlWrite {TWEN, TWIE, TWINT, TWEA}]"
    "dataPointer s2 = dataPointer s1" "nbDataToSend s2 = nbDataToSend s1"
    "i2cBuffer s2 = i2cBuffer s1" "ram s2 = ram s1" "driverState s2 = driverState s1"
    "lastRequestStatus s2 = lastRequestStatus s1"
    using e0 by (simp_all add: s2_def start_step)
  have body: "\<forall>ev \<in> set (butlast rest). fst ev = MS_STARTBIT_TRANSMITTED_AND_ACK_RECEIVED_18
      \<or> fst ev = MS_DATA_TRANSMITTED_ACK_RECEIVED_28"
    using acks by (meson in_set_butlastD)
  have room: "unat (dataPointer s2) + length (butlast rest) \<le> unat (nbDataToSend s2)"
    using len by (simp add: s2 s1)
  note loop = send_loop [OF body room, folded s3_def]
  have s3: "bus s3 = bus s2 @ concat (map (\<lambda>j. [DataWrite (ram s0 (p + j)),
                CtrlWrite {TWEN, TWIE, TWINT, TWEA}]) [0 ..< unat n])"
    "unat (dataPointer s3) = unat n" "nbDataToSend s3 = n"
    "driverState s3 = I2C_MASTER_TRANSMIT" "lastRequestStatus s3 = lastRequestStatus s0"
    using loop len by (simp_all add: s2 s1)
  from s3(2) have full: "dataPointer s3 = n"
    by (simp add: word_unat_eq_iff)
  then have stop: "\<not> dataPointer s3 < nbDataToSend s3"
    by (simp add: s3)
  have fin: "fst (last rest) = MS_STARTBIT_TRANSMITTED_AND_ACK_RECEIVED_18
      \<or> fst (last rest) = MS_DATA_TRANSMITTED_ACK_RECEIVED_28"
    using acks ne by simp
  have run: "interrupts evs s1 = twi_interrupt (last rest) s3"
  proof -
    have "rest = butlast rest @ [last rest]"
      using ne by simp
    then have "interrupts rest s2 = twi_interrupt (last rest) s3"
      by (metis interrupts_append interrupts.simps s3_def)
    then show ?thesis
      by (simp add: evs s2_def)
  qed
  show ?thesis
    unfolding s1_def [symmetric] run
    by (simp add: send_finish_step [OF fin stop] s3 s2 s1 full stops_def
        data_phase_has_no_stop)
qed

text \<open>
  The scenario of the specification: three bytes 0x01, 0x02, 0x03 at address 16 of the
  memory, sent to the peer 0x50.
\<close>

theorem master_send_writes_length_bytes_then_stops_witness:
  "bus (interrupts [(0x08, 0xFF), (0x18, 0xFF), (0x28, 0xFF), (0x28, 0xFF), (0x28, 0xFF)]
         (snd (sendTo 0x50 16 3
            (power_on_master ((\<lambda>_. 0)(16 := 0x01, 17 := 0x02, 18 := 0x03))))))
     = [CtrlWrite {TWINT, TWEA, TWEN, TWIE, TWSTA},
        DataWrite 0xA0, CtrlWrite {TWEN, TWIE, TWINT, TWEA},
        DataWrite 0x01, CtrlWrite {TWEN, TWIE, TWINT, TWEA},
        DataWrite 0x02, CtrlWrite {TWEN, TWIE, TWINT, TWEA},
        DataWrite 0x03, CtrlWrite {TWEN, TWIE, TWINT, TWEA},
        CtrlWrite {TWEN, TWIE, TWEA, TWINT, TWSTO}]
   \<and> driverState (interrupts [(0x08, 0xFF), (0x18, 0xFF), (0x28, 0xFF), (0x28, 0xFF), (0x28, 0xFF)]
         (snd (sendTo 0x50 16 3
            (power_on_master ((\<lambda>_. 0)(16 := 0x01, 17 := 0x02, 18 := 0x03))))))
     = I2C_READY
   \<and> lastRequestStatus (interrupts [(0x08, 0xFF), (0x18, 0xFF), (0x28, 0xFF), (0x28, 0xFF), (0x28, 0xFF)]
         (snd (sendTo 0x50 16 3
            (power_on_master ((\<lambda>_. 0)(16 := 0x01, 17 := 0x02, 18 := 0x03))))))
     = I2C_OK"
proof -
  have h1: "driverState (power_on_master ((\<lambda>_. 0)(16 := 0x01, 17 := 0x02, 18 := 0x03)))
              = I2C_READY"
    by (simp add: power_on_master_def)
  have u3: "unat (3 :: u8) = Suc (Suc (Suc 0))"
    by simp
  have h2: "map fst [(0x08, 0xFF), (0x18, 0xFF), (0x28, 0xFF), (0x28, 0xFF), (0x28, 0xFF :: u8)]
      = MASTER_START_TRANSMISSION_DONE_08 # MS_STARTBIT_TRANSMITTED_AND_ACK_RECEIVED_18
        # replicate (unat (3 :: u8)) MS_DATA_TRANSMITTED_ACK_RECEIVED_28"
    unfolding u3 by simp
  have mem: "bus (power_on_master ((\<lambda>_. 0)(16 := 0x01, 17 := 0x02, 18 := 0x03))) = []"
    "lastRequestStatus (power_on_master ((\<lambda>_. 0)(16 := 0x01, 17 := 0x02, 18 := 0x03))) = I2C_OK"
    "ram (power_on_master ((\<lambda>_. 0)(16 := 0x01, 17 := 0x02, 18 := 0x03)))
       = (\<lambda>_. 0)(16 := 0x01, 17 := 0x02, 18 := 0x03)"
    by (simp_all add: power_on_master_def)
  have upt3: "[0 ..< unat (3 :: u8)] = [0, 1, 2]"
    unfolding u3 by (simp add: upt_rec)
  note run = master_send_writes_length_bytes_then_stops [OF h1 h2, of "0x50" 16,
      unfolded mem upt3]
  from run show ?thesis
    by simp
qed

section \<open>Whole transactions: master receive\<close>

lemma lookahead_nat:
  fixes x y :: u8
  shows "uint x < uint y - 1 \<longleftrightarrow> unat x + 1 < unat y"
  unfolding uint_nat by arith

lemma receive_bytes_ready:
  "driverState s = I2C_READY \<Longrightarrow> receive_bytes bs s = s"
  by (cases bs) simp_all

lemma address_ack_step:
  "twi_interrupt (MR_STARTBIT_TRANSMITED_AND_ACK_RECEIVED_40, d) s =
     s\<lparr>TWSR := MR_STARTBIT_TRANSMITED_AND_ACK_RECEIVED_40, TWDR := d,
       TWCR := (if unat (dataPointer s) + 1 < unat (nbDataToSend s)
                then {TWEN, TWIE, TWINT, TWEA} else {TWEN, TWIE, TWINT}),
       bus := bus s @ [byte_request (unat (nbDataToSend s)) (unat (dataPointer s))]\<rparr>"
  by (simp add: twi_interrupt_def ISR_master_def macro_defs byte_request_def lookahead_nat)

lemma recv_ack_step:
  assumes "TWEA \<in> TWCR s"
  shows "twi_interrupt (mr_data_status s, b) s =
     s\<lparr>TWSR := MR_DATA_RECEIVED_ACK_RETURN_50, TWDR := b,
       ram := (ram s)(masterReceivedBuffer s + unat (dataPointer s) := b),
       dataPointer := dataPointer s + 1,
       TWCR := (if unat (dataPointer s + 1) + 1 < unat (nbDataToSend s)
                then {TWEN, TWIE, TWINT, TWEA} else {TWEN, TWIE, TWINT}),
       bus := bus s @ [byte_request (unat (nbDataToSend s)) (unat (dataPointer s + 1))]\<rparr>"
  using assms
  by (simp add: mr_data_status_def twi_interrupt_def ISR_master_def macro_defs
      byte_request_def lookahead_nat Let_def)

lemma recv_nack_step:
  assumes "TWEA \<notin> TWCR s"
  shows "twi_interrupt (mr_data_status s, b) s =
     s\<lparr>TWSR := MR_DATA_RECEIVED_NO_ACK_RETURN_58, TWDR := b,
       ram := (ram s)(masterReceivedBuffer s + unat (dataPointer s) := b),
       dataPointer := dataPointer s + 1,
       TWCR := {TWEN, TWIE, TWEA, TWINT, TWSTO},
       bus := bus s @ [CtrlWrite {TWEN, TWIE, TWEA, TWINT, TWSTO}],
       driverState := I2C_READY\<rparr>"
  using assms
  by (simp add: mr_data_status_def twi_interrupt_def ISR_master_def macro_defs)

lemma recv_loop:
  assumes "driverState s \<noteq> I2C_READY"
    and "unat (dataPointer s) < unat (nbDataToSend s)"
    and "TWEA \<in> TWCR s \<longleftrightarrow> unat (dataPointer s) + 1 < unat (nbDataToSend s)"
    and "unat (nbDataToSend s) - unat (dataPointer s) \<le> length bs"
  shows "bus (receive_bytes bs s)
      = bus s @ map (byte_request (unat (nbDataToSend s)))
                  [unat (dataPointer s) + 1 ..< unat (nbDataToSend s)]
        @ [CtrlWrite {TWEN, TWIE, TWEA, TWINT, TWSTO}]
    \<and> driverState (receive_bytes bs s) = I2C_READY
    \<and> dataPointer (receive_bytes bs s) = nbDataToSend s
    \<and> ram (receive_bytes bs s)
      = (\<lambda>x. if masterReceivedBuffer s + unat (dataPointer s) \<le> x
                 \<and> x < masterReceivedBuffer s + unat (nbDataToSend s)
              then bs ! (x - (masterReceivedBuffer s + unat (dataPointer s)))
              else ram s x)
    \<and> lastRequestStatus (receive_bytes bs s) = lastRequestStatus s
    \<and> nbDataToSend (receive_bytes bs s) = nbDataToSend s"
  using assms
proof (induction bs arbitrary: s)
  case Nil
  then show ?case by simp
next
  case (Cons b bs)
  from Cons.prems(2) have lt: "dataPointer s < nbDataToSend s"
    by (simp add: word_less_nat_alt)
  note next_dp = unat_cursor_step [OF lt]
  define s' where "s' = twi_interrupt (mr_data_status s, b) s"
  have unfold: "receive_bytes (b # bs) s = receive_bytes bs s'"
    using Cons.prems(1) by (simp add: s'_def)
  show ?case
  proof (cases "TWEA \<in> TWCR s")
    case True
    with Cons.prems(3) have more: "unat (dataPointer s) + 1 < unat (nbDataToSend s)"
      by simp
    note step = recv_ack_step [OF True, of b, folded s'_def]
    have s': "driverState s' \<noteq> I2C_READY"
      "unat (dataPointer s') = Suc (unat (dataPointer s))"
      "nbDataToSend s' = nbDataToSend s"
      "masterReceivedBuffer s' = masterReceivedBuffer s"
      "lastRequestStatus s' = lastRequestStatus s"
      "ram s' = (ram s)(masterReceivedBuffer s + unat (dataPointer s) := b)"
      "bus s' = bus s @ [byte_request (unat (nbDataToSend s)) (Suc (unat (dataPointer s)))]"
      "TWEA \<in> TWCR s' \<longleftrightarrow> Suc (unat (dataPointer s)) + 1 < unat (nbDataToSend s)"
      using Cons.prems(1) by (simp_all add: step next_dp)
    have p2: "unat (dataPointer s') < unat (nbDataToSend s')"
      using more by (simp add: s')
    have p3: "TWEA \<in> TWCR s' \<longleftrightarrow> unat (dataPointer s') + 1 < unat (nbDataToSend s')"
      by (simp add: s')
    have p4: "unat (nbDataToSend s') - unat (dataPointer s') \<le> length bs"
      using Cons.prems(4) by (simp add: s')
    note ih = Cons.IH [OF s'(1) p2 p3 p4, unfolded s']
    have range: "[unat (dataPointer s) + 1 ..< unat (nbDataToSend s)]
        = Suc (unat (dataPointer s)) # [Suc (unat (dataPointer s)) + 1 ..< unat (nbDataToSend s)]"
      using more by (simp add: upt_conv_Cons)
    have mem: "(\<lambda>x. if masterReceivedBuffer s + Suc (unat (dataPointer s)) \<le> x
                 \<and> x < masterReceivedBuffer s + unat (nbDataToSend s)
              then bs ! (x - (masterReceivedBuffer s + Suc (unat (dataPointer s))))
              else ((ram s)(masterReceivedBuffer s + unat (dataPointer s) := b)) x)
       = (\<lambda>x. if masterReceivedBuffer s + unat (dataPointer s) \<le> x
                 \<and> x < masterReceivedBuffer s + unat (nbDataToSend s)
              then (b # bs) ! (x - (masterReceivedBuffer s + unat (dataPointer s)))
              else ram s x)"
      using more by (auto simp add: fun_eq_iff nth_Cons')
    show ?thesis
      unfolding unfold using ih range mem by simp
  next
    case False
    with Cons.prems(2,3) have last: "Suc (unat (dataPointer s)) = unat (nbDataToSend s)"
      by simp
    note step = recv_nack_step [OF False, of b, folded s'_def]
    have ready: "driverState s' = I2C_READY"
      by (simp add: step)
    have full: "dataPointer s + 1 = nbDataToSend s"
      using last next_dp by (simp add: word_unat_eq_iff)
    have mem: "(ram s)(masterReceivedBuffer s + unat (dataPointer s) := b)
       = (\<lambda>x. if masterReceivedBuffer s + unat (dataPointer s) \<le> x
                 \<and> x < masterReceivedBuffer s + unat (nbDataToSend s)
              then (b # bs) ! (x - (masterReceivedBuffer s + unat (dataPointer s)))
              else ram s x)"
      using last by (auto simp add: fun_eq_iff nth_Cons')
    show ?thesis
      unfolding unfold receive_bytes_ready [OF ready]
      using last by (auto simp add: step full fun_eq_iff)
  qed
qed

lemma early_byte_requests:
  "k < m \<Longrightarrow> map (byte_request m) [0 ..< k] = replicate k (CtrlWrite {TWEN, TWIE, TWINT, TWEA})"
  by (induction k) (simp_all add: byte_request_def replicate_append_same)

lemma byte_requests:
  assumes "0 < m"
  shows "map (byte_request m) [0 ..< m]
      = replicate (m - 1) (CtrlWrite {TWEN, TWIE, TWINT, TWEA}) @ [CtrlWrite {TWEN, TWIE, TWINT}]"
proof -
  from assms obtain k where m: "m = Suc k"
    by (cases m) auto
  have "map (byte_request m) [0 ..< k] = replicate k (CtrlWrite {TWEN, TWIE, TWINT, TWEA})"
    by (rule early_byte_requests) (simp add: m)
  moreover have "byte_request m k = CtrlWrite {TWEN, TWIE, TWINT}"
    by (simp add: byte_request_def m)
  ultimately show ?thesis
    by (simp add: m)
qed

text \<open>
  The look-ahead of the receive path, in any state: the request made at the
  address-acknowledged interrupt, and the one made after a byte has been stored, is with
  acknowledge exactly when more than one byte is still to come (length minus cursor,
  the cursor taken after the store).
\<close>

lemma ack_policy:
  "(TWEA \<in> TWCR (twi_interrupt (MR_STARTBIT_TRANSMITED_AND_ACK_RECEIVED_40, d) t)
      \<longleftrightarrow> 1 < unat (nbDataToSend t) - unat (dataPointer t))
   \<and> (TWEA \<in> TWCR (twi_interrupt (MR_DATA_RECEIVED_ACK_RETURN_50, d) t)
      \<longleftrightarrow> 1 < unat (nbDataToSend t) - unat (dataPointer t + 1))"
proof -
  have "TWEA \<in> TWCR (twi_interrupt (MR_STARTBIT_TRANSMITED_AND_ACK_RECEIVED_40, d) t)
      \<longleftrightarrow> unat (dataPointer t) + 1 < unat (nbDataToSend t)"
    by (simp add: twi_interrupt_def ISR_master_def macro_defs lookahead_nat)
  moreover have "TWEA \<in> TWCR (twi_interrupt (MR_DATA_RECEIVED_ACK_RETURN_50, d) t)
      \<longleftrightarrow> unat (dataPointer t + 1) + 1 < unat (nbDataToSend t)"
    by (simp add: twi_interrupt_def ISR_master_def macro_defs lookahead_nat Let_def)
  ultimately show ?thesis
    by (simp add: less_diff_conv)
qed

text \<open>
  C2. A master-receive transaction of \<open>n \<ge> 1\<close> bytes from an idle driver, with a peer
  that acknowledges its address and sends at least \<open>n\<close> bytes, the controller reporting
  each byte with the acknowledge bit the driver asked for. After the address phase the
  driver makes exactly \<open>n\<close> requests for a byte: the first \<open>n - 1\<close> with acknowledge,
  the last one, and only it, without; then it commands the stop condition. The driver
  ends \<open>I2C_READY\<close> with the cursor at \<open>n\<close> and the first \<open>n\<close> bytes of the peer in the
  buffer. The last two conjuncts are the rule behind it, for any state \<open>t\<close>: at the
  address-acknowledged interrupt (0x40) and after each stored byte (0x50) the request is
  with acknowledge exactly when more than one byte is still to come.
\<close>

theorem master_receive_refuses_last_byte_only:
  assumes "driverState s0 = I2C_READY"
    and "0 < unat n"
    and "unat n \<le> length bs"
  shows "bus (read_transaction a p n bs s0)
      = bus s0
        @ [CtrlWrite {TWINT, TWEA, TWEN, TWIE, TWSTA},
           DataWrite (push_bit 1 a + 1), CtrlWrite {TWEN, TWIE, TWINT, TWEA}]
        @ replicate (unat n - 1) (CtrlWrite {TWEN, TWIE, TWINT, TWEA})
        @ [CtrlWrite {TWEN, TWIE, TWINT}]
        @ [CtrlWrite {TWEN, TWIE, TWEA, TWINT, TWSTO}]
    \<and> driverState (read_transaction a p n bs s0) = I2C_READY
    \<and> dataPointer (read_transaction a p n bs s0) = n
    \<and> (\<forall>j < unat n. ram (read_transaction a p n bs s0) (p + j) = bs ! j)
    \<and> (TWEA \<in> TWCR (twi_interrupt (MR_STARTBIT_TRANSMITED_AND_ACK_RECEIVED_40, d) t)
          \<longleftrightarrow> 1 < unat (nbDataToSend t) - unat (dataPointer t))
    \<and> (TWEA \<in> TWCR (twi_interrupt (MR_DATA_RECEIVED_ACK_RETURN_50, d) t)
          \<longleftrightarrow> 1 < unat (nbDataToSend t) - unat (dataPointer t + 1))"
proof -
  define s1 where "s1 = snd (readFrom a p n s0)"
  define s2 where "s2 = twi_interrupt (MASTER_START_TRANSMISSION_DONE_08, TWDR s0) s1"
  define s3 where "s3 = twi_interrupt (MR_STARTBIT_TRANSMITED_AND_ACK_RECEIVED_40, TWDR s0) s2"
  have s1: "bus s1 = bus s0 @ [CtrlWrite {TWINT, TWEA, TWEN, TWIE, TWSTA}]"
    "dataPointer s1 = 0" "nbDataToSend s1 = n" "masterReceivedBuffer s1 = p"
    "i2cAddress s1 = push_bit 1 a + 1" "driverState s1 = I2C_MASTER_TRANSMIT"
    using assms(1) by (simp_all add: s1_def readFrom_def macro_defs)
  have s2: "bus s2 = bus s1 @ [DataWrite (i2cAddress s1), CtrlWrite {TWEN, TWIE, TWINT, TWEA}]"
    "dataPointer s2 = dataPointer s1" "nbDataToSend s2 = nbDataToSend s1"
    "masterReceivedBuffer s2 = masterReceivedBuffer s1" "driverState s2 = driverState s1"
    by (simp_all add: s2_def start_step)
  have s3: "bus s3 = bus s2 @ [byte_request (unat n) 0]"
    "dataPointer s3 = 0" "nbDataToSend s3 = n" "masterReceivedBuffer s3 = p"
    "driverState s3 \<noteq> I2C_READY"
    "TWEA \<in> TWCR s3 \<longleftrightarrow> 1 < unat n"
    by (simp_all add: s3_def address_ack_step s2 s1)
  have run: "read_transaction a p n bs s0 = receive_bytes bs s3"
    by (simp add: read_transaction_def s3_def s2_def s1_def)
  have p2: "unat (dataPointer s3) < unat (nbDataToSend s3)"
    using assms(2) by (simp add: s3)
  have p3: "TWEA \<in> TWCR s3 \<longleftrightarrow> unat (dataPointer s3) + 1 < unat (nbDataToSend s3)"
    by (simp add: s3)
  have p4: "unat (nbDataToSend s3) - unat (dataPointer s3) \<le> length bs"
    using assms(3) by (simp add: s3)
  note loop = recv_loop [OF s3(5) p2 p3 p4, folded run, unfolded s3 s2 s1]
  have reqs: "byte_request (unat n) 0 # map (byte_request (unat n)) [unat (0 :: u8) + 1 ..< unat n]
      = map (byte_request (unat n)) [0 ..< unat n]"
    using assms(2) by (simp add: upt_conv_Cons)
  have b: "bus (read_transaction a p n bs s0)
      = bus s0 @ [CtrlWrite {TWINT, TWEA, TWEN, TWIE, TWSTA},
                  DataWrite (push_bit 1 a + 1), CtrlWrite {TWEN, TWIE, TWINT, TWEA}]
        @ (byte_request (unat n) 0 # map (byte_request (unat n)) [unat (0 :: u8) + 1 ..< unat n])
        @ [CtrlWrite {TWEN, TWIE, TWEA, TWINT, TWSTO}]"
    using loop [THEN conjunct1] by simp
  have d: "driverState (read_transaction a p n bs s0) = I2C_READY"
    "dataPointer (read_transaction a p n bs s0) = n"
    using loop [THEN conjunct2, THEN conjunct1]
      loop [THEN conjunct2, THEN conjunct2, THEN conjunct1] by simp_all
  have "ram (read_transaction a p n bs s0)
      = (\<lambda>x. if p + unat (0 :: u8) \<le> x \<and> x < p + unat n
              then bs ! (x - (p + unat (0 :: u8))) else ram s3 x)"
    using loop [THEN conjunct2, THEN conjunct2, THEN conjunct2, THEN conjunct1] by simp
  then have r: "\<forall>j < unat n. ram (read_transaction a p n bs s0) (p + j) = bs ! j"
    by simp
  show ?thesis
    using b [unfolded reqs byte_requests [OF assms(2)]] d r ack_policy [of d t] by simp
qed

text \<open>
  The scenario of the specification: two bytes read from the peer 0x50, which returns
  0xAA and 0xBB, into the buffer at address 32.
\<close>

theorem master_receive_refuses_last_byte_only_witness:
  "bus (read_transaction 0x50 32 2 [0xAA, 0xBB] (power_on_master (\<lambda>_. 0)))
     = [CtrlWrite {TWINT, TWEA, TWEN, TWIE, TWSTA},
        DataWrite 0xA1, CtrlWrite {TWEN, TWIE, TWINT, TWEA},
        CtrlWrite {TWEN, TWIE, TWINT, TWEA},
        CtrlWrite {TWEN, TWIE, TWINT},
        CtrlWrite {TWEN, TWIE, TWEA, TWINT, TWSTO}]
   \<and> driverState (read_transaction 0x50 32 2 [0xAA, 0xBB] (power_on_master (\<lambda>_. 0)))
     = I2C_READY
   \<and> ram (read_transaction 0x50 32 2 [0xAA, 0xBB] (power_on_master (\<lambda>_. 0))) 32 = 0xAA
   \<and> ram (read_transaction 0x50 32 2 [0xAA, 0xBB] (power_on_master (\<lambda>_. 0))) 33 = 0xBB"
proof -
  have h1: "driverState (power_on_master (\<lambda>_. 0)) = I2C_READY"
    by (simp add: power_on_master_def)
  have u2: "unat (2 :: u8) = Suc (Suc 0)"
    by simp
  have h2: "0 < unat (2 :: u8)"
    by simp
  have h3: "unat (2 :: u8) \<le> length [0xAA, 0xBB :: u8]"
    by simp
  have empty: "bus (power_on_master (\<lambda>_. 0)) = []"
    by (simp add: power_on_master_def)
  note run = master_receive_refuses_last_byte_only [OF h1 h2 h3, of "0x50" 32,
      unfolded empty u2]
  from run have cells:
    "\<forall>j < Suc (Suc 0).
        ram (read_transaction 0x50 32 2 [0xAA, 0xBB] (power_on_master (\<lambda>_. 0))) (32 + j)
          = [0xAA, 0xBB] ! j"
    by blast
  from cells [rule_format, of 0] cells [rule_format, of "Suc 0"]
  have "ram (read_transaction 0x50 32 2 [0xAA, 0xBB] (power_on_master (\<lambda>_. 0))) 32 = 0xAA"
    "ram (read_transaction 0x50 32 2 [0xAA, 0xBB] (power_on_master (\<lambda>_. 0))) 33 = 0xBB"
    by simp_all
  with run show ?thesis
    by simp
qed

section \<open>Cursor and length\<close>

text \<open>
  C4 on the code: \<^verbatim>\<open>readFrom\<close> with length 0. At the address-acknowledged interrupt the
  comparison \<^verbatim>\<open>dataPointer < nbDataToSend-1\<close> is \<open>0 < -1\<close>, so the driver asks for a byte
  without acknowledge; the controller receives that byte and reports it with 0x58; the
  routine stores it at \<^verbatim>\<open>buffer[0]\<close> and the cursor becomes 1 while the length is 0.
\<close>

theorem zero_length_read_moves_cursor_past_length:
  "dataPointer (read_transaction 0x50 32 0 [0xAA] (power_on_master (\<lambda>_. 0))) = 1
   \<and> nbDataToSend (read_transaction 0x50 32 0 [0xAA] (power_on_master (\<lambda>_. 0))) = 0
   \<and> ram (read_transaction 0x50 32 0 [0xAA] (power_on_master (\<lambda>_. 0))) 32 = 0xAA
   \<and> bus (read_transaction 0x50 32 0 [0xAA] (power_on_master (\<lambda>_. 0)))
     = [CtrlWrite {TWINT, TWEA, TWEN, TWIE, TWSTA},
        DataWrite 0xA1, CtrlWrite {TWEN, TWIE, TWINT, TWEA},
        CtrlWrite {TWEN, TWIE, TWINT},
        CtrlWrite {TWEN, TWIE, TWEA, TWINT, TWSTO}]"
  by (simp add: read_transaction_def readFrom_def power_on_master_def mr_data_status_def
      twi_interrupt_def ISR_master_def macro_defs)

section \<open>Slave receive\<close>

lemma slave_data_step:
  "slave_interrupt (SR_DATA_RECEIVED_ACK_RETURN_80, b) s =
     (slaveBuffer_store (unat (slaveDataPointer s)) b s)
       \<lparr>TWSR := SR_DATA_RECEIVED_ACK_RETURN_80, TWDR := b,
        TWCR := {TWEN, TWIE, TWINT, TWEA},
        bus := bus s @ [CtrlWrite {TWEN, TWIE, TWINT, TWEA}],
        slaveDataPointer := slaveDataPointer s + 1\<rparr>"
  by (simp add: slave_interrupt_def ISR_slave_def macro_defs slaveBuffer_store_def)

text \<open>
  Every data byte advances the receive cursor by one, whatever the size of the array:
  after the bytes \<open>bs\<close> the cursor has grown by their number (modulo 256), and every
  request for the next byte was made with acknowledge.
\<close>

lemma slave_data_loop:
  "slaveDataPointer (slave_interrupts (map (\<lambda>b. (SR_DATA_RECEIVED_ACK_RETURN_80, b)) bs) s)
     = slaveDataPointer s + of_nat (length bs)
   \<and> length (slaveBuffer (slave_interrupts (map (\<lambda>b. (SR_DATA_RECEIVED_ACK_RETURN_80, b)) bs) s))
     = length (slaveBuffer s)
   \<and> bus (slave_interrupts (map (\<lambda>b. (SR_DATA_RECEIVED_ACK_RETURN_80, b)) bs) s)
     = bus s @ replicate (length bs) (CtrlWrite {TWEN, TWIE, TWINT, TWEA})
   \<and> slaveReceiveCallBack (slave_interrupts (map (\<lambda>b. (SR_DATA_RECEIVED_ACK_RETURN_80, b)) bs) s)
     = slaveReceiveCallBack s
   \<and> user (slave_interrupts (map (\<lambda>b. (SR_DATA_RECEIVED_ACK_RETURN_80, b)) bs) s) = user s"
proof (induction bs arbitrary: s)
  case Nil
  show ?case by simp
next
  case (Cons b bs)
  show ?case
    using Cons.IH [of "slave_interrupt (SR_DATA_RECEIVED_ACK_RETURN_80, b) s"]
    by (simp add: slave_data_step slaveBuffer_store_def replicate_append_same)
qed

lemma slave_interrupts_append:
  "slave_interrupts (xs @ ys) s = slave_interrupts ys (slave_interrupts xs s)"
  by (induction xs arbitrary: s) simp_all

text \<open>
  For every buffer size and every number of bytes the peer writes, the receive handler
  is called once, with the number of bytes received (modulo 256) as the length: the size
  of the array does not enter.
\<close>

lemma slave_receive_reports_every_byte:
  "map snd (user (slave_interrupts (slave_write bs) (power_on_slave capacity)))
     = [of_nat (length bs)]"
proof -
  define s1 where
    "s1 = slave_interrupt (SR_START_TRANSMISSION_RECEIVED_60, 0) (power_on_slave capacity)"
  define s2 where
    "s2 = slave_interrupts (map (\<lambda>b. (SR_DATA_RECEIVED_ACK_RETURN_80, b)) bs) s1"
  have s1: "slaveDataPointer s1 = 0" "slaveReceiveCallBack s1 = record_call" "user s1 = []"
    by (simp_all add: s1_def power_on_slave_def slave_interrupt_def ISR_slave_def macro_defs)
  have s2: "slaveDataPointer s2 = of_nat (length bs)" "slaveReceiveCallBack s2 = record_call"
    "user s2 = []"
    using slave_data_loop [of bs s1] by (simp_all add: s2_def s1)
  have "slave_interrupts (slave_write bs) (power_on_slave capacity)
      = slave_interrupt (SR_STOP_RECEIVED, 0) s2"
    by (simp add: slave_write_def slave_interrupts_append s2_def s1_def)
  then show ?thesis
    by (simp add: slave_interrupt_def ISR_slave_def macro_defs record_call_def s2)
qed

lemma four_zero_bytes: "replicate 4 (0 :: u8) = [0, 0, 0, 0]"
  by (simp add: numeral_eq_Suc)

lemma four_stores: "[0, 0, 0, 0 :: u8][0 := 1, Suc 0 := 2, 2 := 3, 3 := 4] = [1, 2, 3, 4]"
  by (simp add: numeral_eq_Suc)

text \<open>
  C1 on the code: a buffer of 4 bytes and a peer that writes 7 bytes and stops. All
  seven bytes are acknowledged; the first four are stored in the array; the remaining
  three are stored too, at the indices 4, 5 and 6, past the end of the array; and the
  receive handler is called with the length 7, not 4.
\<close>

theorem slave_receive_stores_past_capacity:
  "user (slave_interrupts (slave_write [1, 2, 3, 4, 5, 6, 7]) (power_on_slave 4))
     = [([1, 2, 3, 4], 7)]
   \<and> stray (slave_interrupts (slave_write [1, 2, 3, 4, 5, 6, 7]) (power_on_slave 4))
     = [(4, 5), (5, 6), (6, 7)]
   \<and> bus (slave_interrupts (slave_write [1, 2, 3, 4, 5, 6, 7]) (power_on_slave 4))
     = [CtrlWrite {TWEN, TWIE, TWINT, TWEA}, CtrlWrite {TWEN, TWIE, TWINT, TWEA},
        CtrlWrite {TWEN, TWIE, TWINT, TWEA}, CtrlWrite {TWEN, TWIE, TWINT, TWEA},
        CtrlWrite {TWEN, TWIE, TWINT, TWEA}, CtrlWrite {TWEN, TWIE, TWINT, TWEA},
        CtrlWrite {TWEN, TWIE, TWINT, TWEA}, CtrlWrite {TWEN, TWIE, TWINT, TWEA},
        CtrlWrite {TWEN, TWIE, TWEA}, CtrlWrite {TWEN, TWIE, TWEA, TWINT}]
   \<and> driverState (slave_interrupts (slave_write [1, 2, 3, 4, 5, 6, 7]) (power_on_slave 4))
     = I2C_READY"
  by (simp add: slave_write_def power_on_slave_def slave_interrupt_def ISR_slave_def
      slaveBuffer_store_def record_call_def macro_defs four_zero_bytes four_stores)

end
